theory Spec2Isabelle
  imports Complex_Main "HOL-Library.Multiset" "HOL-Library.Sublist"
begin

section \<open>The entity store\<close>

text \<open>
  Modelled from the spec: the module \<^verbatim>\<open>models\<close> (the classes User, Photo, Like, Comment
  and Save) is imported by \<^verbatim>\<open>app.py\<close> and is not part of the sources. Each row type
  below holds the fields that the handlers of \<^verbatim>\<open>app.py\<close> pass to the constructor or
  read back, plus the upload timestamp of a Photo that section 3 of the specification
  names. A nullable column, filled from \<^verbatim>\<open>request.form.get\<close>, is an \<open>option\<close>.
  A table is the list of its rows in insertion order; \<^verbatim>\<open>db.session.add\<close> followed by
  \<^verbatim>\<open>db.session.commit\<close> appends a row, \<^verbatim>\<open>db.session.delete\<close> of a fetched object
  removes that one row. Strings are byte strings in UTF-8.
\<close>

record user =
  user_id :: nat
  username :: string
  password :: string
  role :: string

record photo =
  filename :: string
  title :: string
  caption :: "string option"
  location :: "string option"
  people_present :: "string option"
  auto_tags :: string
  owner_id :: nat
  uploaded_at :: int

record relation_row =
  rel_user_id :: nat
  rel_photo_id :: nat

record comment_row =
  comment_text :: string
  comment_user_id :: nat
  comment_photo_id :: nat

text \<open>
  The state that the handlers read and write: the five tables, the two blob sinks of the
  upload pipeline (cloud container and local upload folder, each a list of named byte
  strings in write order) and the flashed messages of the session.
\<close>

record store =
  users :: "user list"
  photos :: "photo list"
  likes :: "relation_row list"
  saves :: "relation_row list"
  comments :: "comment_row list"
  blobs :: "(string \<times> string) list"
  files :: "(string \<times> string) list"
  flashes :: "(string \<times> string) list"

subsection \<open>Responses and failures\<close>

datatype json_value = JBool bool | JStr string

text \<open>
  \<^verbatim>\<open>jsonify(**kwargs)\<close> is the list of its keyword arguments; a redirect carries its
  target, a rendered page the name of its template.
\<close>

datatype response =
  Json "(string \<times> json_value) list"
  | Redirect string
  | Render string

text \<open>
  Exceptions that leave a handler: a missing form key (\<^verbatim>\<open>request.form[...]\<close>), a
  failure inside the sentiment estimator, an image that cannot be decoded, one that
  cannot be encoded, and a commit that violates the uniqueness of usernames, and the two
  errors of the database engines on a search pattern.
\<close>

datatype failure =
  BadRequestKeyError string
  | EstimatorError
  | DecodeError
  | EncodeError
  | IntegrityError
  | NulCharacterError
  | LikePatternTooComplex

datatype http_method = GET | POST

section \<open>The image characterizer\<close>

text \<open>
  The Pillow operations that \<^verbatim>\<open>analyze_image\<close> and the upload pipeline call are
  library code and are parameters, over any type \<open>'img\<close> of decoded images:
  \<^verbatim>\<open>img.mode\<close>, \<^verbatim>\<open>img.convert(mode)\<close>, \<^verbatim>\<open>img.size\<close>,
  \<^verbatim>\<open>ImageStat.Stat(img).mean[0]\<close> (a float, modelled by the real it denotes),
  \<^verbatim>\<open>img.resize((1, 1)).getpixel((0, 0))\<close>, \<^verbatim>\<open>img.thumbnail((1080, 1080))\<close>,
  \<^verbatim>\<open>img.save(..., format="JPEG", quality=85)\<close> and \<^verbatim>\<open>Image.open\<close>; the last two
  are \<open>None\<close> when they raise.
\<close>

record 'img pil =
  img_mode :: "'img \<Rightarrow> string"
  img_convert :: "'img \<Rightarrow> string \<Rightarrow> 'img"
  img_size :: "'img \<Rightarrow> nat \<times> nat"
  stat_mean0 :: "'img \<Rightarrow> real"
  resize_1x1_getpixel :: "'img \<Rightarrow> nat \<times> nat \<times> nat"
  img_thumbnail :: "'img \<Rightarrow> 'img"
  img_save_jpeg :: "'img \<Rightarrow> string option"
  image_open :: "string \<Rightarrow> 'img option"

text \<open>The emoji of the tag literals, as their UTF-8 bytes.\<close>

definition emoji_sun :: string where
  "emoji_sun = [CHR 0xE2, CHR 0x98, CHR 0x80, CHR 0xEF, CHR 0xB8, CHR 0x8F]"

definition emoji_moon :: string where
  "emoji_moon = [CHR 0xF0, CHR 0x9F, CHR 0x8C, CHR 0x99]"

definition emoji_cloud :: string where
  "emoji_cloud = [CHR 0xE2, CHR 0x98, CHR 0x81, CHR 0xEF, CHR 0xB8, CHR 0x8F]"

definition emoji_red :: string where
  "emoji_red = [CHR 0xF0, CHR 0x9F, CHR 0x94, CHR 0xB4]"

definition emoji_blue :: string where
  "emoji_blue = [CHR 0xF0, CHR 0x9F, CHR 0x94, CHR 0xB5]"

definition emoji_palette :: string where
  "emoji_palette = [CHR 0xF0, CHR 0x9F, CHR 0x8E, CHR 0xA8]"

text \<open>The three tag choices of \<^verbatim>\<open>analyze_image\<close> (app.py, lines 93, 96 to 101, 104 to 109).\<close>

definition resolution_tag :: "nat \<Rightarrow> nat \<Rightarrow> string" where
  "resolution_tag w h = (if w * h > 1000000 then ''HD'' else ''SD'')"

definition brightness_tag :: "real \<Rightarrow> string" where
  "brightness_tag brightness =
     (if brightness > 150 then ''Bright '' @ emoji_sun
      else if brightness < 80 then ''Dark '' @ emoji_moon
      else ''Neutral '' @ emoji_cloud)"

fun tone_tag :: "nat \<times> nat \<times> nat \<Rightarrow> string" where
  "tone_tag (r, g, b) =
     (if r > g \<and> r > b then ''Warm '' @ emoji_red
      else if b > r \<and> b > g then ''Cool '' @ emoji_blue
      else ''Balanced '' @ emoji_palette)"

text \<open>Python's \<^verbatim>\<open>sep.join(xs)\<close>.\<close>

fun join :: "string \<Rightarrow> string list \<Rightarrow> string" where
  "join sep [] = []"
| "join sep [x] = x"
| "join sep (x # y # ys) = x @ sep @ join sep (y # ys)"

text \<open>
  The list \<^verbatim>\<open>tags\<close> when \<^verbatim>\<open>analyze_image\<close> returns, and the returned string
  (app.py, lines 87 to 111).
\<close>

definition analyze_tags :: "'img pil \<Rightarrow> 'img \<Rightarrow> string list" where
  "analyze_tags P img0 =
     (let img = (if img_mode P img0 \<noteq> ''RGB'' then img_convert P img0 ''RGB'' else img0);
          (w, h) = img_size P img;
          brightness = stat_mean0 P (img_convert P img ''L'');
          rgb = resize_1x1_getpixel P img
      in [resolution_tag w h, brightness_tag brightness, tone_tag rgb])"

definition analyze_image :: "'img pil \<Rightarrow> 'img \<Rightarrow> string" where
  "analyze_image P img = join '' | '' (analyze_tags P img)"

text \<open>
  The quantities that the tags are computed from: the mean luminance and the single pixel
  of the downsample, both of the image after its normalisation to RGB.
\<close>

definition rgb_of :: "'img pil \<Rightarrow> 'img \<Rightarrow> 'img" where
  "rgb_of P img = (if img_mode P img \<noteq> ''RGB'' then img_convert P img ''RGB'' else img)"

definition mean_luminance :: "'img pil \<Rightarrow> 'img \<Rightarrow> real" where
  "mean_luminance P img = stat_mean0 P (img_convert P (rgb_of P img) ''L'')"

definition downsample_pixel :: "'img pil \<Rightarrow> 'img \<Rightarrow> nat \<times> nat \<times> nat" where
  "downsample_pixel P img = resize_1x1_getpixel P (rgb_of P img)"

text \<open>
  The output that the specification words describe: one of \<open>HD\<close>, \<open>SD\<close>, one of
  \<open>Bright\<close>, \<open>Dark\<close>, \<open>Neutral\<close> and one of \<open>Warm\<close>, \<open>Cool\<close>, \<open>Balanced\<close>, joined by
  \<open>" | "\<close>.
\<close>

definition spec_tag_strings :: "string list" where
  "spec_tag_strings =
     concat (map (\<lambda>r. concat (map (\<lambda>b. map (\<lambda>t. join '' | '' [r, b, t])
        [''Warm'', ''Cool'', ''Balanced'']) [''Bright'', ''Dark'', ''Neutral''])) [''HD'', ''SD''])"

text \<open>The tags that the code chooses from, bucket by bucket.\<close>

definition resolution_tags :: "string list" where
  "resolution_tags = [''HD'', ''SD'']"

definition brightness_tags :: "string list" where
  "brightness_tags = [''Bright '' @ emoji_sun, ''Dark '' @ emoji_moon, ''Neutral '' @ emoji_cloud]"

definition tone_tags :: "string list" where
  "tone_tags = [''Warm '' @ emoji_red, ''Cool '' @ emoji_blue, ''Balanced '' @ emoji_palette]"

text \<open>
  A decoded image given by what Pillow reports about it, and the library operations on
  such images; used to run the definitions on concrete inputs.
\<close>

record sample_image =
  s_mode :: string
  s_size :: "nat \<times> nat"
  s_mean :: real
  s_pixel :: "nat \<times> nat \<times> nat"

definition sample_pil :: "sample_image pil" where
  "sample_pil =
     \<lparr>img_mode = s_mode,
      img_convert = (\<lambda>i m. i\<lparr>s_mode := m\<rparr>),
      img_size = s_size,
      stat_mean0 = s_mean,
      resize_1x1_getpixel = s_pixel,
      img_thumbnail = (\<lambda>i. i),
      img_save_jpeg = (\<lambda>i. Some ''jpeg''),
      image_open = (\<lambda>bs. if bs = [] then None
                          else Some \<lparr>s_mode = ''RGB'', s_size = (2, 2), s_mean = 151,
                                     s_pixel = (200, 10, 10)\<rparr>)\<rparr>"

definition sample_img :: "real \<Rightarrow> nat \<times> nat \<times> nat \<Rightarrow> sample_image" where
  "sample_img m px = \<lparr>s_mode = ''RGB'', s_size = (2, 2), s_mean = m, s_pixel = px\<rparr>"

section \<open>Comment moderation\<close>

text \<open>
  Python's truth value of \<^verbatim>\<open>request.form.get(key)\<close>: \<^verbatim>\<open>None\<close> and the empty string
  are false, every other string is true.
\<close>

fun truthy :: "string option \<Rightarrow> bool" where
  "truthy None = False"
| "truthy (Some s) = (s \<noteq> [])"

text \<open>
  The handler \<^verbatim>\<open>comment\<close> (app.py, lines 230 to 243). The sentiment estimator
  \<^verbatim>\<open>TextBlob(text).sentiment.polarity\<close> is a library call and is a parameter: it maps
  a text to its polarity, or to \<open>None\<close> when it raises. The polarity is a Python float;
  it is modelled by the real number it denotes, and the float literal \<^verbatim>\<open>-0.3\<close> by
  \<open>- 3 / 10\<close>. \<^verbatim>\<open>login_required\<close> has let the request through, so the
  current user is given. The argument \<open>text\<close> is \<^verbatim>\<open>request.form.get("text")\<close>.
\<close>

definition comment ::
  "(string \<Rightarrow> real option) \<Rightarrow> user \<Rightarrow> nat \<Rightarrow> string option \<Rightarrow> store
    \<Rightarrow> (failure + response) \<times> store" where
  "comment sentiment_polarity current_user photo_id text db =
     (if \<not> truthy text then (Inr (Json [(''success'', JBool False)]), db)
      else
        (case sentiment_polarity (the text) of
           None \<Rightarrow> (Inl EstimatorError, db)
         | Some polarity \<Rightarrow>
             if polarity < - 3 / 10
             then (Inr (Json [(''success'', JBool False),
                              (''message'', JStr ''Negative blocked'')]), db)
             else (Inr (Json [(''success'', JBool True)]),
                   db\<lparr>comments := comments db @
                        [\<lparr>comment_text = the text,
                          comment_user_id = user_id current_user,
                          comment_photo_id = photo_id\<rparr>]\<rparr>)))"

text \<open>The two failure responses and the success response of the comment handler.\<close>

definition missing_field_response :: response where
  "missing_field_response = Json [(''success'', JBool False)]"

definition negative_blocked_response :: response where
  "negative_blocked_response =
     Json [(''success'', JBool False), (''message'', JStr ''Negative blocked'')]"

definition comment_admitted_response :: response where
  "comment_admitted_response = Json [(''success'', JBool True)]"

text \<open>The reason carried by a JSON response, when it has one.\<close>

fun json_message :: "response \<Rightarrow> json_value option" where
  "json_message (Json kvs) = map_of kvs ''message''"
| "json_message _ = None"

definition add_comment :: "string \<Rightarrow> user \<Rightarrow> nat \<Rightarrow> store \<Rightarrow> store" where
  "add_comment t u pid db =
     db\<lparr>comments := comments db @
        [\<lparr>comment_text = t, comment_user_id = user_id u, comment_photo_id = pid\<rparr>]\<rparr>"

text \<open>Concrete inputs used to exercise the theorems.\<close>

definition empty_store :: store where
  "empty_store = \<lparr>users = [], photos = [], likes = [], saves = [], comments = [],
                   blobs = [], files = [], flashes = []\<rparr>"

definition alice :: user where
  "alice = \<lparr>user_id = 1, username = ''alice'', password = ''h'', role = ''creator''\<rparr>"

definition sample_polarity :: "string \<Rightarrow> real option" where
  "sample_polarity t =
     (if t = ''awful'' then Some (- 31 / 100)
      else if t = ''meh'' then Some (- 3 / 10)
      else if t = ''???'' then None
      else Some 0)"

definition failing_estimator :: "string \<Rightarrow> real option" where
  "failing_estimator t = None"

section \<open>Like and save toggles\<close>

text \<open>
  \<^verbatim>\<open>Like.query.filter_by(user_id=..., photo_id=...).first()\<close>: the first row of the table
  for the pair, if there is one.
\<close>

definition first_for :: "nat \<Rightarrow> nat \<Rightarrow> relation_row list \<Rightarrow> relation_row option" where
  "first_for uid pid rows = find (\<lambda>r. rel_user_id r = uid \<and> rel_photo_id r = pid) rows"

text \<open>The handlers \<^verbatim>\<open>like\<close> (app.py, lines 204 to 215) and \<^verbatim>\<open>save\<close> (lines 217 to 228).\<close>

definition like :: "user \<Rightarrow> nat \<Rightarrow> store \<Rightarrow> response \<times> store" where
  "like current_user photo_id db =
     (case first_for (user_id current_user) photo_id (likes db) of
        Some obj \<Rightarrow>
          (Json [(''liked'', JBool False)], db\<lparr>likes := remove1 obj (likes db)\<rparr>)
      | None \<Rightarrow>
          (Json [(''liked'', JBool True)],
           db\<lparr>likes := likes db @
              [\<lparr>rel_user_id = user_id current_user, rel_photo_id = photo_id\<rparr>]\<rparr>))"

definition save :: "user \<Rightarrow> nat \<Rightarrow> store \<Rightarrow> response \<times> store" where
  "save current_user photo_id db =
     (case first_for (user_id current_user) photo_id (saves db) of
        Some obj \<Rightarrow>
          (Json [(''saved'', JBool False)], db\<lparr>saves := remove1 obj (saves db)\<rparr>)
      | None \<Rightarrow>
          (Json [(''saved'', JBool True)],
           db\<lparr>saves := saves db @
              [\<lparr>rel_user_id = user_id current_user, rel_photo_id = photo_id\<rparr>]\<rparr>))"

text \<open>The number of rows of a relation table for a (user, photo) pair.\<close>

definition pair_row :: "user \<Rightarrow> nat \<Rightarrow> relation_row" where
  "pair_row u pid = \<lparr>rel_user_id = user_id u, rel_photo_id = pid\<rparr>"

definition row_count :: "user \<Rightarrow> nat \<Rightarrow> relation_row list \<Rightarrow> nat" where
  "row_count u pid rows = count (mset rows) (pair_row u pid)"

text \<open>A run of toggle requests, each by some user on some photo, in order.\<close>

fun likes_run :: "(user \<times> nat) list \<Rightarrow> store \<Rightarrow> store" where
  "likes_run [] db = db"
| "likes_run ((u, pid) # reqs) db = likes_run reqs (snd (like u pid db))"

fun saves_run :: "(user \<times> nat) list \<Rightarrow> store \<Rightarrow> store" where
  "saves_run [] db = db"
| "saves_run ((u, pid) # reqs) db = saves_run reqs (snd (save u pid db))"

section \<open>Feed query\<close>

text \<open>
  The query of \<^verbatim>\<open>feed\<close> runs in the database engine, which the application selects at
  start-up: SQLite, or PostgreSQL. The model follows the engines where they differ.
  PostgreSQL carries the \<^verbatim>\<open>lower\<close> of its database locale as a parameter.
  Texts are well-formed UTF-8, as the encoding of a Python string always is.
\<close>

datatype engine = SQLite | PostgreSQL "string \<Rightarrow> string"

text \<open>
  The escape character of LIKE when the query names none: SQLite has none, PostgreSQL's
  is the backslash.
\<close>

fun like_escape :: "engine \<Rightarrow> char option" where
  "like_escape SQLite = None"
| "like_escape (PostgreSQL lw) = Some (CHR 0x5C)"

text \<open>
  A continuation byte of a UTF-8 character (\<open>10xxxxxx\<close>). A character is a byte that is
  not a continuation byte, followed by its continuation bytes.
\<close>

definition is_continuation :: "char \<Rightarrow> bool" where
  "is_continuation c = (128 \<le> (of_char c :: nat) \<and> (of_char c :: nat) < 192)"

text \<open>
  \<open>like_match esc pattern s\<close> is \<^verbatim>\<open>s LIKE pattern\<close>: \<open>%\<close> matches any run of characters,
  \<open>_\<close> any one character, the character after the escape character \<open>esc\<close> itself, every
  other character itself. A pattern that ends in the escape character matches nothing
  here; the feed never builds one, since its patterns end in \<open>%\<close>.
\<close>

function like_match :: "char option \<Rightarrow> string \<Rightarrow> string \<Rightarrow> bool" where
  "like_match esc [] s = (s = [])"
| "like_match esc (c # p) s =
     (if Some c = esc then
        (case p of
           [] \<Rightarrow> False
         | c' # p' \<Rightarrow> (case s of [] \<Rightarrow> False | d # s' \<Rightarrow> c' = d \<and> like_match esc p' s'))
      else if c = CHR ''%'' then
        (like_match esc p s \<or> (case s of [] \<Rightarrow> False | d # s' \<Rightarrow> like_match esc (c # p) s'))
      else if c = CHR ''_'' then
        (case s of
           [] \<Rightarrow> False
         | d # s' \<Rightarrow> \<not> is_continuation d \<and> like_match esc p (dropWhile is_continuation s'))
      else
        (case s of [] \<Rightarrow> False | d # s' \<Rightarrow> c = d \<and> like_match esc p s'))"
  by pat_completeness auto
termination
  by (relation "measure (\<lambda>(esc, p, s). length p + length s)")
    (auto simp add: less_Suc_eq_le le_SucI length_dropWhile_le)

text \<open>
  Case folding. SQLite's \<^verbatim>\<open>lower\<close> folds the letters \<open>A\<close> to \<open>Z\<close> and leaves every
  other byte; PostgreSQL's ILIKE folds by the database locale.
\<close>

definition lower_char :: "char \<Rightarrow> char" where
  "lower_char c =
     (case map_of (zip ''ABCDEFGHIJKLMNOPQRSTUVWXYZ'' ''abcdefghijklmnopqrstuvwxyz'') c of
        None \<Rightarrow> c
      | Some l \<Rightarrow> l)"

definition lower :: "string \<Rightarrow> string" where
  "lower s = map lower_char s"

fun sql_lower :: "engine \<Rightarrow> string \<Rightarrow> string" where
  "sql_lower SQLite s = lower s"
| "sql_lower (PostgreSQL lw) s = lw s"

text \<open>
  The NUL character. SQLite's LIKE reads each operand up to its first NUL; PostgreSQL has
  no NUL in a text, and its driver raises on a query parameter that contains one.
\<close>

definition nul :: char where
  "nul = CHR 0x00"

definition until_nul :: "string \<Rightarrow> string" where
  "until_nul s = takeWhile (\<lambda>c. c \<noteq> nul) s"

fun like_operand :: "engine \<Rightarrow> string \<Rightarrow> string" where
  "like_operand SQLite s = until_nul s"
| "like_operand (PostgreSQL lw) s = s"

text \<open>
  \<^verbatim>\<open>column.ilike(pattern)\<close>, which SQLAlchemy renders as
  \<^verbatim>\<open>lower(column) LIKE lower(pattern)\<close> for SQLite and as \<^verbatim>\<open>column ILIKE pattern\<close> for
  PostgreSQL, with SQL's three truth values: \<open>None\<close> is NULL, the value of the operator on
  a NULL column.
\<close>

definition ilike :: "engine \<Rightarrow> string option \<Rightarrow> string \<Rightarrow> bool option" where
  "ilike e col pattern =
     (case col of
        None \<Rightarrow> None
      | Some s \<Rightarrow>
          Some (like_match (like_escape e) (like_operand e (sql_lower e pattern))
                  (like_operand e (sql_lower e s))))"

fun sql_or :: "bool option \<Rightarrow> bool option \<Rightarrow> bool option" where
  "sql_or (Some True) _ = Some True"
| "sql_or _ (Some True) = Some True"
| "sql_or (Some False) (Some False) = Some False"
| "sql_or _ _ = None"

text \<open>
  The errors of the engines on the search query. PostgreSQL's driver refuses a parameter
  with a NUL. SQLite's LIKE refuses a pattern of more than 50000 bytes, when it is
  evaluated, so when the join has a row.
\<close>

definition has_joined_row :: "store \<Rightarrow> bool" where
  "has_joined_row db =
     list_ex (\<lambda>p. list_ex (\<lambda>u. user_id u = owner_id p) (users db)) (photos db)"

fun search_failure :: "engine \<Rightarrow> string \<Rightarrow> store \<Rightarrow> failure option" where
  "search_failure SQLite pattern db =
     (if 50000 < length pattern \<and> has_joined_row db then Some LikePatternTooComplex else None)"
| "search_failure (PostgreSQL lw) pattern db =
     (if nul \<in> set pattern then Some NulCharacterError else None)"

text \<open>
  The photos that \<^verbatim>\<open>feed\<close> hands to its template (app.py, lines 120 to 133), for the
  value \<open>q\<close> of \<^verbatim>\<open>request.args.get("q")\<close>. The join pairs a photo with the users whose
  id is the photo's \<^verbatim>\<open>user_id\<close>; the filter keeps the pairs on which the condition is
  true. The search has no ORDER BY: the engine returns the rows in an order of its own,
  the parameter \<open>row_order\<close>. Without a term the photos are sorted by upload time, newest
  first, and photos of the same time come in the engine's order.
\<close>

definition feed ::
  "engine \<Rightarrow> (photo list \<Rightarrow> photo list) \<Rightarrow> string option \<Rightarrow> store \<Rightarrow> failure + photo list" where
  "feed e row_order q db =
     (if truthy q then
        (let s = ''%'' @ the q @ ''%'' in
         (case search_failure e s db of
            Some err \<Rightarrow> Inl err
          | None \<Rightarrow>
              Inr (row_order (concat (map (\<lambda>p.
                map (\<lambda>u. p)
                  (filter (\<lambda>u. user_id u = owner_id p \<and>
                      sql_or (sql_or (ilike e (Some (title p)) s) (ilike e (caption p) s))
                             (ilike e (Some (username u)) s) = Some True)
                    (users db)))
                (photos db))))))
      else Inr (sort_key (\<lambda>p. - uploaded_at p) (row_order (photos db))))"













section \<open>Upload pipeline\<close>

text \<open>
  \<^verbatim>\<open>request.files.get("photo")\<close>: an uploaded file with its client file name and its
  bytes. Its truth value is that of its file name.
\<close>

record file_storage =
  file_name :: string
  file_bytes :: string

fun file_truthy :: "file_storage option \<Rightarrow> bool" where
  "file_truthy None = False"
| "file_truthy (Some f) = (file_name f \<noteq> [])"

record upload_request =
  req_method :: http_method
  req_url :: string
  req_photo :: "file_storage option"
  form_title :: "string option"
  form_caption :: "string option"
  form_location :: "string option"
  form_people :: "string option"

text \<open>
  The configuration read at start-up (whether a blob service client exists, the container
  name, the upload folder) and the other library calls of the handler:
  \<^verbatim>\<open>secure_filename\<close>, the URL of a blob, the UTC time of the request as a time stamp and
  as the text that \<^verbatim>\<open>strftime('%Y%m%d%H%M%S')\<close> gives.
\<close>

record upload_env =
  blob_service :: bool
  azure_container :: "string option"
  upload_folder :: string
  secure_filename :: "string \<Rightarrow> string"
  blob_url :: "string \<Rightarrow> string \<Rightarrow> string"
  utcnow :: int
  utcnow_text :: string

definition flash :: "string \<Rightarrow> string \<Rightarrow> store \<Rightarrow> store" where
  "flash message category st = st\<lparr>flashes := flashes st @ [(message, category)]\<rparr>"

text \<open>The handler \<^verbatim>\<open>creator_dashboard\<close> (app.py, lines 150 to 202).\<close>

definition creator_dashboard ::
  "'img pil \<Rightarrow> upload_env \<Rightarrow> user \<Rightarrow> upload_request \<Rightarrow> store \<Rightarrow> (failure + response) \<times> store" where
  "creator_dashboard P env current_user req st =
     (if role current_user \<noteq> ''creator''
      then (Inr (Redirect ''/feed''), flash ''Only creators allowed'' ''danger'' st)
      else if req_method req = POST then
        (if \<not> file_truthy (req_photo req) \<or> \<not> truthy (form_title req)
         then (Inr (Redirect (req_url req)), flash ''Missing fields'' ''danger'' st)
         else
           (case image_open P (file_bytes (the (req_photo req))) of
              None \<Rightarrow> (Inl DecodeError, st)
            | Some img0 \<Rightarrow>
                (let tags = analyze_image P img0;
                     img = img_thumbnail P img0;
                     fname = secure_filename env (file_name (the (req_photo req)));
                     name = utcnow_text env @ ''_'' @ fname
                 in
                   (case img_save_jpeg P img of
                      None \<Rightarrow> (Inl EncodeError, st)
                    | Some mem \<Rightarrow>
                        (let (file_url, st1) =
                               (if blob_service env \<and> truthy (azure_container env)
                                then (blob_url env (the (azure_container env)) name,
                                      st\<lparr>blobs := blobs st @ [(name, mem)]\<rparr>)
                                else (''/static/uploads/'' @ name,
                                      st\<lparr>files := files st @
                                          [(upload_folder env @ ''/'' @ name, mem)]\<rparr>));
                             new_photo =
                               \<lparr>filename = file_url,
                                title = the (form_title req),
                                caption = form_caption req,
                                location = form_location req,
                                people_present = form_people req,
                                auto_tags = tags,
                                owner_id = user_id current_user,
                                uploaded_at = utcnow env\<rparr>
                         in (Inr (Redirect (''/u/'' @ username current_user)),
                             flash ''Uploaded successfully'' ''success''
                               (st1\<lparr>photos := photos st1 @ [new_photo]\<rparr>)))))))
      else (Inr (Render ''dashboard.html''), st))"

definition sample_env :: upload_env where
  "sample_env =
     \<lparr>blob_service = False, azure_container = None, upload_folder = ''static/uploads'',
      secure_filename = (\<lambda>n. n), blob_url = (\<lambda>c n. c @ ''/'' @ n),
      utcnow = 1700000000, utcnow_text = ''20231114221320''\<rparr>"

definition sample_upload :: "file_storage option \<Rightarrow> string option \<Rightarrow> upload_request" where
  "sample_upload f t =
     \<lparr>req_method = POST, req_url = ''/upload'', req_photo = f, form_title = t,
      form_caption = None, form_location = None, form_people = None\<rparr>"

section \<open>Registration\<close>

text \<open>
  The handler \<^verbatim>\<open>register\<close> (app.py, lines 245 to 256). The arguments are the form fields
  \<open>username\<close>, \<open>password\<close> and \<open>role\<close>, each \<open>None\<close> when the form does not have the key;
  \<^verbatim>\<open>request.form[key]\<close> raises on a missing key, \<^verbatim>\<open>request.form.get("role", "consumer")\<close>
  falls back to its default. \<^verbatim>\<open>generate_password_hash\<close> is a parameter.
  Modelled from the spec: the id of the new row is one more than the largest id of the
  table, and the commit fails when the username is already taken (usernames are unique).
\<close>

definition next_user_id :: "user list \<Rightarrow> nat" where
  "next_user_id us = Suc (fold max (map user_id us) 0)"

definition register ::
  "(string \<Rightarrow> string) \<Rightarrow> http_method \<Rightarrow> string option \<Rightarrow> string option \<Rightarrow> string option
    \<Rightarrow> store \<Rightarrow> (failure + response) \<times> store" where
  "register generate_password_hash method form_username form_password form_role db =
     (if method = POST then
        (case form_username of
           None \<Rightarrow> (Inl (BadRequestKeyError ''username''), db)
         | Some name \<Rightarrow>
             (case form_password of
                None \<Rightarrow> (Inl (BadRequestKeyError ''password''), db)
              | Some pw \<Rightarrow>
                  (let new_user =
                         \<lparr>user_id = next_user_id (users db),
                          username = name,
                          password = generate_password_hash pw,
                          role = (case form_role of None \<Rightarrow> ''consumer'' | Some r \<Rightarrow> r)\<rparr>
                   in if list_ex (\<lambda>u. username u = name) (users db)
                      then (Inl IntegrityError, db)
                      else (Inr (Redirect ''/login''), db\<lparr>users := users db @ [new_user]\<rparr>))))
      else (Inr (Render ''register.html''), db))"

definition sample_hash :: "string \<Rightarrow> string" where
  "sample_hash pw = ''pbkdf2:'' @ pw"

text \<open>The users that a handler call has added to the table.\<close>

definition created_users :: "store \<Rightarrow> store \<Rightarrow> user list" where
  "created_users db db' = drop (length (users db)) (users db')"

section \<open>Notions used in the statements\<close>

text \<open>Texts made of white space only (blank, tab, line feed, vertical tab, form feed, return).\<close>

definition is_space :: "char \<Rightarrow> bool" where
  "is_space c = (c \<in> set [CHR '' '', CHR 0x09, CHR 0x0A, CHR 0x0B, CHR 0x0C, CHR 0x0D])"

definition whitespace_only :: "string \<Rightarrow> bool" where
  "whitespace_only t = (t \<noteq> [] \<and> list_all is_space t)"

text \<open>
  The effect of one toggle of the row \<open>r\<close> on a table, used to state what the handlers do
  to their table, and a store in which a user has liked and saved a photo.
\<close>

definition toggle_rows :: "relation_row \<Rightarrow> relation_row list \<Rightarrow> relation_row list" where
  "toggle_rows r rows = (if r \<in> set rows then remove1 r rows else rows @ [r])"

definition liked_store :: store where
  "liked_store = empty_store\<lparr>likes := [pair_row alice 7], saves := [pair_row alice 7]\<rparr>"

text \<open>Photos, users and a store used to run the feed query on concrete inputs.\<close>

definition mk_photo :: "string \<Rightarrow> string option \<Rightarrow> nat \<Rightarrow> int \<Rightarrow> photo" where
  "mk_photo t c uid ts =
     \<lparr>filename = ''/static/uploads/x.jpg'', title = t, caption = c, location = None,
      people_present = None, auto_tags = ''SD'', owner_id = uid, uploaded_at = ts\<rparr>"

definition abby :: user where
  "abby = \<lparr>user_id = 2, username = ''Abby'', password = ''h'', role = ''consumer''\<rparr>"

text \<open>The letters \<open>E\<close> and \<open>e\<close> with acute accent in UTF-8, and a word that starts with one.\<close>

definition e_acute_upper :: string where
  "e_acute_upper = [CHR 0xC3, CHR 0x89]"

definition e_acute_lower :: string where
  "e_acute_lower = [CHR 0xC3, CHR 0xA9]"

definition title_ete :: string where
  "title_ete = e_acute_upper @ ''t'' @ e_acute_lower"

definition term_ete :: string where
  "term_ete = e_acute_lower @ ''t'' @ e_acute_lower"

text \<open>
  A sample of a locale's \<^verbatim>\<open>lower\<close>: it folds the letters \<open>A\<close> to \<open>Z\<close> and the letter \<open>E\<close>
  with acute accent.
\<close>

fun locale_lower :: "string \<Rightarrow> string" where
  "locale_lower [] = []"
| "locale_lower [c] = [lower_char c]"
| "locale_lower (c # d # s) =
     (if c = CHR 0xC3 \<and> d = CHR 0x89 then CHR 0xC3 # CHR 0xA9 # locale_lower s
      else lower_char c # locale_lower (d # s))"

definition feed_store :: store where
  "feed_store =
     empty_store\<lparr>users := [alice, abby],
       photos := [mk_photo ''abc'' None 1 10, mk_photo ''Sunset'' (Some ''CAB ride'') 1 30,
                  mk_photo ''Hills'' None 1 20, mk_photo ''Lake'' None 2 40,
                  mk_photo title_ete None 1 50]\<rparr>"

text \<open>The roles that the specification allows, and an uploaded file.\<close>

definition role_valid :: "user \<Rightarrow> bool" where
  "role_valid u = (role u = ''creator'' \<or> role u = ''consumer'')"

definition sample_file :: file_storage where
  "sample_file = \<lparr>file_name = ''cat.png'', file_bytes = ''PNG''\<rparr>"

section \<open>Theorems about comment moderation\<close>

text \<open>
  C1. For a comment request with non-empty text whose polarity the estimator reports
  as \<open>p\<close>: the comment is rejected if and only if \<open>p < -0.3\<close>; a rejected comment gets the
  response with reason "Negative blocked" and the store is unchanged; otherwise (also at
  exactly \<open>-0.3\<close>) the comment is admitted and a Comment row with that text is appended.
\<close>

theorem comment_moderation_threshold:
  assumes "t \<noteq> []" and "est t = Some p"
  shows "((fst (comment est u pid (Some t) db) = Inr negative_blocked_response) = (p < - 3 / 10))
    \<and> (p < - 3 / 10 \<longrightarrow>
           comment est u pid (Some t) db = (Inr negative_blocked_response, db)
           \<and> json_message negative_blocked_response = Some (JStr ''Negative blocked''))
    \<and> (\<not> p < - 3 / 10 \<longrightarrow>
           comment est u pid (Some t) db = (Inr comment_admitted_response, add_comment t u pid db)
           \<and> comments (add_comment t u pid db) =
               comments db @ [\<lparr>comment_text = t, comment_user_id = user_id u,
                                comment_photo_id = pid\<rparr>])"
  using assms
  by (simp add: comment_def negative_blocked_response_def comment_admitted_response_def
      add_comment_def)

theorem comment_moderation_threshold_witness:
  "''awful'' \<noteq> [] \<and> sample_polarity ''awful'' = Some (- 31 / 100) \<and> (- 31 / 100 :: real) < - 3 / 10
   \<and> comment sample_polarity alice 7 (Some ''awful'') empty_store
       = (Inr negative_blocked_response, empty_store)
   \<and> ''meh'' \<noteq> [] \<and> sample_polarity ''meh'' = Some (- 3 / 10) \<and> \<not> (- 3 / 10 :: real) < - 3 / 10
   \<and> comment sample_polarity alice 7 (Some ''meh'') empty_store
       = (Inr comment_admitted_response, add_comment ''meh'' alice 7 empty_store)"
  using comment_moderation_threshold [of "''awful''" sample_polarity "- 31 / 100" alice 7 empty_store]
    comment_moderation_threshold [of "''meh''" sample_polarity "- 3 / 10" alice 7 empty_store]
  by (simp add: sample_polarity_def)

text \<open>
  C9. A comment request whose text is missing or empty gets the response
  \<open>{success: false}\<close> and leaves the store, so also the Comment table, as it was, whatever
  the sentiment estimator is: the outcome is the one under an estimator that raises on
  every text, so the estimator has not been called. The response differs from the
  moderation rejection and carries no reason.
\<close>

theorem comment_missing_text:
  assumes "\<not> truthy text"
  shows "comment est u pid text db = (Inr missing_field_response, db)
    \<and> comment est u pid text db = comment failing_estimator u pid text db
    \<and> comments (snd (comment est u pid text db)) = comments db
    \<and> missing_field_response \<noteq> negative_blocked_response
    \<and> json_message missing_field_response = None"
  using assms
  by (simp add: comment_def missing_field_response_def negative_blocked_response_def)

theorem comment_missing_text_witness:
  "\<not> truthy None \<and> \<not> truthy (Some [])
   \<and> comment failing_estimator alice 7 None empty_store = (Inr missing_field_response, empty_store)
   \<and> comment failing_estimator alice 7 (Some []) empty_store = (Inr missing_field_response, empty_store)"
  using comment_missing_text [of None failing_estimator alice 7 empty_store]
    comment_missing_text [of "Some []" failing_estimator alice 7 empty_store]
  by simp

text \<open>
  C10. A non-empty text never gets the missing-field response and reaches the estimator:
  when the estimator raises on it, the handler fails with that error. In particular a text
  of white space only, for which the estimator reports polarity \<open>0\<close>, is admitted and
  appended to the Comment table.
\<close>

theorem comment_whitespace_admitted:
  assumes "t \<noteq> []"
  shows "fst (comment est u pid (Some t) db) \<noteq> Inr missing_field_response
    \<and> (est t = None \<longrightarrow> comment est u pid (Some t) db = (Inl EstimatorError, db))
    \<and> (whitespace_only t \<and> est t = Some 0 \<longrightarrow>
         comment est u pid (Some t) db = (Inr comment_admitted_response, add_comment t u pid db)
         \<and> comments (add_comment t u pid db) =
             comments db @ [\<lparr>comment_text = t, comment_user_id = user_id u,
                              comment_photo_id = pid\<rparr>])"
  using assms
  by (auto simp add: comment_def missing_field_response_def comment_admitted_response_def
      add_comment_def split: option.splits)

theorem comment_whitespace_admitted_witness:
  "''   '' \<noteq> [] \<and> whitespace_only ''   '' \<and> sample_polarity ''   '' = Some 0
   \<and> failing_estimator ''   '' = None
   \<and> comment failing_estimator alice 7 (Some ''   '') empty_store = (Inl EstimatorError, empty_store)
   \<and> comment sample_polarity alice 7 (Some ''   '') empty_store
       = (Inr comment_admitted_response, add_comment ''   '' alice 7 empty_store)
   \<and> comments (add_comment ''   '' alice 7 empty_store) =
       [\<lparr>comment_text = ''   '', comment_user_id = 1, comment_photo_id = 7\<rparr>]"
  using comment_whitespace_admitted [of "''   ''" failing_estimator alice 7 empty_store]
    comment_whitespace_admitted [of "''   ''" sample_polarity alice 7 empty_store]
  by (simp add: sample_polarity_def failing_estimator_def whitespace_only_def is_space_def
      empty_store_def alice_def)

section \<open>Theorems about the image characterizer\<close>

lemma analyze_tags_eq:
  "analyze_tags P img =
     [resolution_tag (fst (img_size P (rgb_of P img))) (snd (img_size P (rgb_of P img))),
      brightness_tag (mean_luminance P img), tone_tag (downsample_pixel P img)]"
  by (simp add: analyze_tags_def rgb_of_def mean_luminance_def downsample_pixel_def Let_def
      split: prod.splits)

text \<open>
  C2, as stated, fails: the string returned for an image of mean luminance 151 whose
  downsample is reddish is none of the eighteen strings built from the plain words
  \<open>HD\<close>, \<open>SD\<close>, \<open>Bright\<close>, \<open>Dark\<close>, \<open>Neutral\<close>, \<open>Warm\<close>, \<open>Cool\<close>, \<open>Balanced\<close>, because
  the tags of the brightness and tone buckets end in a blank and an emoji.
\<close>

theorem analyze_image_plain_tags_counterexample:
  "analyze_image sample_pil (sample_img 151 (200, 10, 10)) \<notin> set spec_tag_strings"
  by (simp add: analyze_image_def analyze_tags_def sample_pil_def sample_img_def
      spec_tag_strings_def resolution_tag_def brightness_tag_def emoji_sun_def emoji_red_def)

text \<open>
  C2, amended. For every decoded image, \<^verbatim>\<open>analyze_image\<close> returns exactly three tags
  joined by \<open>" | "\<close>, in the order resolution, brightness, tone: one of \<open>HD\<close>, \<open>SD\<close>;
  one of \<open>Bright\<close>, \<open>Dark\<close>, \<open>Neutral\<close>, each followed by a blank and its emoji (sun,
  moon, cloud); one of \<open>Warm\<close>, \<open>Cool\<close>, \<open>Balanced\<close>, each followed by a blank and its
  emoji (red circle, blue circle, palette).
\<close>

theorem analyze_image_three_tags:
  "\<exists>r b t. r \<in> set resolution_tags \<and> b \<in> set brightness_tags \<and> t \<in> set tone_tags
     \<and> analyze_tags P img = [r, b, t]
     \<and> analyze_image P img = r @ '' | '' @ b @ '' | '' @ t"
proof -
  obtain w h where wh: "img_size P (rgb_of P img) = (w, h)"
    by (cases "img_size P (rgb_of P img)")
  obtain r g b where px: "downsample_pixel P img = (r, g, b)"
    by (cases "downsample_pixel P img")
  have tags: "analyze_tags P img =
      [resolution_tag w h, brightness_tag (mean_luminance P img), tone_tag (r, g, b)]"
    using wh px by (simp add: analyze_tags_eq)
  have r: "resolution_tag w h \<in> set resolution_tags"
    by (simp add: resolution_tag_def resolution_tags_def)
  have b: "brightness_tag (mean_luminance P img) \<in> set brightness_tags"
    by (simp add: brightness_tag_def brightness_tags_def)
  have t: "tone_tag (r, g, b) \<in> set tone_tags"
    by (simp add: tone_tags_def)
  have "analyze_image P img =
      resolution_tag w h @ '' | '' @ brightness_tag (mean_luminance P img) @ '' | ''
        @ tone_tag (r, g, b)"
    by (simp add: analyze_image_def tags)
  with tags r b t show ?thesis by blast
qed

text \<open>
  C3, as stated, fails on the text of the tag: at mean luminance 151 the brightness tag
  is not the word \<open>Bright\<close> alone.
\<close>

theorem brightness_plain_tag_counterexample:
  "mean_luminance sample_pil (sample_img 151 (0, 0, 0)) = 151
   \<and> analyze_tags sample_pil (sample_img 151 (0, 0, 0)) ! 1 \<noteq> ''Bright''"
  by (simp add: analyze_tags_eq brightness_tag_def mean_luminance_def rgb_of_def sample_pil_def
      sample_img_def)

text \<open>
  C3, amended. For every image, the brightness tag (the second tag) is \<open>Bright\<close> plus
  blank and sun emoji exactly when the mean luminance exceeds 150, \<open>Dark\<close> plus blank and
  moon emoji exactly when it is below 80, and \<open>Neutral\<close> plus blank and cloud emoji
  exactly when it lies from 80 to 150; so 151 gives the Bright tag, 150 and 80 the Neutral
  tag, 79 the Dark tag.
\<close>

theorem brightness_bucket_thresholds:
  "(analyze_tags P img ! 1 = ''Bright '' @ emoji_sun) = (mean_luminance P img > 150)
   \<and> (analyze_tags P img ! 1 = ''Dark '' @ emoji_moon) = (mean_luminance P img < 80)
   \<and> (analyze_tags P img ! 1 = ''Neutral '' @ emoji_cloud)
       = (80 \<le> mean_luminance P img \<and> mean_luminance P img \<le> 150)
   \<and> brightness_tag 151 = ''Bright '' @ emoji_sun
   \<and> brightness_tag 150 = ''Neutral '' @ emoji_cloud
   \<and> brightness_tag 80 = ''Neutral '' @ emoji_cloud
   \<and> brightness_tag 79 = ''Dark '' @ emoji_moon"
  by (auto simp add: analyze_tags_eq brightness_tag_def)

text \<open>
  C4, as stated, fails on the text of the tag: for a pure red downsample the tone tag is
  not the word \<open>Warm\<close> alone.
\<close>

theorem tone_plain_tag_counterexample:
  "downsample_pixel sample_pil (sample_img 100 (255, 0, 0)) = (255, 0, 0)
   \<and> analyze_tags sample_pil (sample_img 100 (255, 0, 0)) ! 2 \<noteq> ''Warm''"
  by (simp add: analyze_tags_eq downsample_pixel_def rgb_of_def sample_pil_def sample_img_def
      emoji_red_def)

text \<open>
  C4, amended. For every image whose 1x1 downsample is the pixel \<open>(r, g, b)\<close>, the tone
  tag (the third tag) is \<open>Warm\<close> plus blank and red-circle emoji exactly when \<open>r\<close> is
  strictly greater than both \<open>g\<close> and \<open>b\<close>, \<open>Cool\<close> plus blank and blue-circle emoji exactly
  when \<open>b\<close> is strictly greater than both \<open>r\<close> and \<open>g\<close>, and \<open>Balanced\<close> plus blank and
  palette emoji in all other cases; green greatest, all channels equal and \<open>r = b > g\<close> are
  among these.
\<close>

theorem tone_bucket_rule:
  assumes "downsample_pixel P img = (r, g, b)"
  shows "(analyze_tags P img ! 2 = ''Warm '' @ emoji_red) = (r > g \<and> r > b)
   \<and> (analyze_tags P img ! 2 = ''Cool '' @ emoji_blue) = (b > r \<and> b > g)
   \<and> (analyze_tags P img ! 2 = ''Balanced '' @ emoji_palette)
       = (\<not> (r > g \<and> r > b) \<and> \<not> (b > r \<and> b > g))
   \<and> tone_tag (0, 255, 0) = ''Balanced '' @ emoji_palette
   \<and> tone_tag (7, 7, 7) = ''Balanced '' @ emoji_palette
   \<and> tone_tag (9, 3, 9) = ''Balanced '' @ emoji_palette"
  using assms by (auto simp add: analyze_tags_eq)

theorem tone_bucket_rule_witness:
  "downsample_pixel sample_pil (sample_img 100 (255, 0, 0)) = (255, 0, 0)
   \<and> analyze_tags sample_pil (sample_img 100 (255, 0, 0)) ! 2 = ''Warm '' @ emoji_red
   \<and> downsample_pixel sample_pil (sample_img 100 (0, 0, 255)) = (0, 0, 255)
   \<and> analyze_tags sample_pil (sample_img 100 (0, 0, 255)) ! 2 = ''Cool '' @ emoji_blue
   \<and> downsample_pixel sample_pil (sample_img 100 (9, 3, 9)) = (9, 3, 9)
   \<and> analyze_tags sample_pil (sample_img 100 (9, 3, 9)) ! 2 = ''Balanced '' @ emoji_palette"
  using tone_bucket_rule [of sample_pil "sample_img 100 (255, 0, 0)" 255 0 0]
    tone_bucket_rule [of sample_pil "sample_img 100 (0, 0, 255)" 0 0 255]
    tone_bucket_rule [of sample_pil "sample_img 100 (9, 3, 9)" 9 3 9]
  by (simp add: downsample_pixel_def rgb_of_def sample_pil_def sample_img_def)

section \<open>Theorems about the like and save toggles\<close>

lemma first_for_eq:
  "first_for (user_id u) pid rows =
     (if pair_row u pid \<in> set rows then Some (pair_row u pid) else None)"
proof (induction rows)
  case Nil
  then show ?case by (simp add: first_for_def)
next
  case (Cons r rows)
  then show ?case
    by (cases r) (auto simp add: first_for_def pair_row_def)
qed

lemma like_eq:
  "like u pid db =
     (if pair_row u pid \<in> set (likes db)
      then (Json [(''liked'', JBool False)], db\<lparr>likes := remove1 (pair_row u pid) (likes db)\<rparr>)
      else (Json [(''liked'', JBool True)], db\<lparr>likes := likes db @ [pair_row u pid]\<rparr>))"
  by (simp add: like_def first_for_eq) (simp add: pair_row_def)

lemma save_eq:
  "save u pid db =
     (if pair_row u pid \<in> set (saves db)
      then (Json [(''saved'', JBool False)], db\<lparr>saves := remove1 (pair_row u pid) (saves db)\<rparr>)
      else (Json [(''saved'', JBool True)], db\<lparr>saves := saves db @ [pair_row u pid]\<rparr>))"
  by (simp add: save_def first_for_eq) (simp add: pair_row_def)

lemma in_remove1_count:
  assumes "r \<in> set (remove1 r rows)"
  shows "2 \<le> count (mset rows) r"
proof -
  have "0 < count (mset (remove1 r rows)) r"
    using assms by (simp only: count_greater_zero_iff set_mset_mset)
  then show ?thesis by simp
qed

lemma count_toggle_rows:
  "count (mset rows) x \<le> 1 \<Longrightarrow> count (mset (toggle_rows r rows)) x \<le> 1"
  by (auto simp add: toggle_rows_def count_eq_zero_iff)

lemma snd_like: "snd (like u pid db) = db\<lparr>likes := toggle_rows (pair_row u pid) (likes db)\<rparr>"
  by (simp add: like_eq toggle_rows_def)

lemma snd_save: "snd (save u pid db) = db\<lparr>saves := toggle_rows (pair_row u pid) (saves db)\<rparr>"
  by (simp add: save_eq toggle_rows_def)

lemma likes_like: "likes (snd (like u pid db)) = toggle_rows (pair_row u pid) (likes db)"
  by (simp add: like_eq toggle_rows_def)

lemma saves_save: "saves (snd (save u pid db)) = toggle_rows (pair_row u pid) (saves db)"
  by (simp add: save_eq toggle_rows_def)

lemma likes_run_count:
  "row_count u pid (likes db) \<le> 1 \<Longrightarrow> row_count u pid (likes (likes_run reqs db)) \<le> 1"
proof (induction reqs arbitrary: db)
  case Nil
  then show ?case by simp
next
  case (Cons rq reqs)
  obtain u' pid' where rq: "rq = (u', pid')" by (cases rq)
  have "row_count u pid (likes (snd (like u' pid' db))) \<le> 1"
    using Cons.prems count_toggle_rows [of "likes db" "pair_row u pid" "pair_row u' pid'"]
    by (simp add: row_count_def likes_like)
  then show ?case using Cons.IH rq by simp
qed

lemma saves_run_count:
  "row_count u pid (saves db) \<le> 1 \<Longrightarrow> row_count u pid (saves (saves_run reqs db)) \<le> 1"
proof (induction reqs arbitrary: db)
  case Nil
  then show ?case by simp
next
  case (Cons rq reqs)
  obtain u' pid' where rq: "rq = (u', pid')" by (cases rq)
  have "row_count u pid (saves (snd (save u' pid' db))) \<le> 1"
    using Cons.prems count_toggle_rows [of "saves db" "pair_row u pid" "pair_row u' pid'"]
    by (simp add: row_count_def saves_save)
  then show ?case using Cons.IH rq by simp
qed

lemma toggle_twice:
  "count (mset rows) r \<le> 1 \<Longrightarrow> mset (toggle_rows r (toggle_rows r rows)) = mset rows"
  by (auto simp add: toggle_rows_def dest: in_remove1_count)

lemma toggle_reports:
  "count (mset rows) r \<le> 1 \<Longrightarrow> (r \<in> set (toggle_rows r rows)) = (r \<notin> set rows)"
  by (auto simp add: toggle_rows_def dest: in_remove1_count)

text \<open>
  C5. One like toggle (and likewise one save toggle) deletes the row of the (user, photo)
  pair and reports false when such a row exists, and otherwise creates the row and reports
  true. Starting from at most one row for the pair: the reported boolean says whether a
  row for the pair exists after the operation; two consecutive toggles leave the table
  with the same rows and every other part of the store as it was; and after any run of
  toggle requests, by any users on any photos, the pair still has at most one row.
\<close>

theorem toggle_like_save:
  "(pair_row u pid \<in> set (likes db) \<longrightarrow>
      like u pid db = (Json [(''liked'', JBool False)],
                       db\<lparr>likes := remove1 (pair_row u pid) (likes db)\<rparr>))
   \<and> (pair_row u pid \<notin> set (likes db) \<longrightarrow>
      like u pid db = (Json [(''liked'', JBool True)],
                       db\<lparr>likes := likes db @ [pair_row u pid]\<rparr>))
   \<and> (row_count u pid (likes db) \<le> 1 \<longrightarrow>
      fst (like u pid db)
        = Json [(''liked'', JBool (pair_row u pid \<in> set (likes (snd (like u pid db)))))]
      \<and> mset (likes (likes_run [(u, pid), (u, pid)] db)) = mset (likes db)
      \<and> (likes_run [(u, pid), (u, pid)] db)\<lparr>likes := likes db\<rparr> = db
      \<and> row_count u pid (likes (likes_run reqs db)) \<le> 1)
   \<and> (pair_row u pid \<in> set (saves db) \<longrightarrow>
      save u pid db = (Json [(''saved'', JBool False)],
                       db\<lparr>saves := remove1 (pair_row u pid) (saves db)\<rparr>))
   \<and> (pair_row u pid \<notin> set (saves db) \<longrightarrow>
      save u pid db = (Json [(''saved'', JBool True)],
                       db\<lparr>saves := saves db @ [pair_row u pid]\<rparr>))
   \<and> (row_count u pid (saves db) \<le> 1 \<longrightarrow>
      fst (save u pid db)
        = Json [(''saved'', JBool (pair_row u pid \<in> set (saves (snd (save u pid db)))))]
      \<and> mset (saves (saves_run [(u, pid), (u, pid)] db)) = mset (saves db)
      \<and> (saves_run [(u, pid), (u, pid)] db)\<lparr>saves := saves db\<rparr> = db
      \<and> row_count u pid (saves (saves_run reqs db)) \<le> 1)"
proof -
  have l1: "pair_row u pid \<in> set (likes db) \<longrightarrow>
      like u pid db = (Json [(''liked'', JBool False)],
                       db\<lparr>likes := remove1 (pair_row u pid) (likes db)\<rparr>)"
    by (simp add: like_eq)
  have l2: "pair_row u pid \<notin> set (likes db) \<longrightarrow>
      like u pid db = (Json [(''liked'', JBool True)],
                       db\<lparr>likes := likes db @ [pair_row u pid]\<rparr>)"
    by (simp add: like_eq)
  have l3: "fst (like u pid db)
        = Json [(''liked'', JBool (pair_row u pid \<in> set (likes (snd (like u pid db)))))]"
    if "row_count u pid (likes db) \<le> 1"
    using that toggle_reports [of "likes db" "pair_row u pid"]
    by (simp add: likes_like row_count_def) (simp add: like_eq)
  have l4: "mset (likes (likes_run [(u, pid), (u, pid)] db)) = mset (likes db)"
    if "row_count u pid (likes db) \<le> 1"
    using that toggle_twice [of "likes db" "pair_row u pid"]
    by (simp add: snd_like row_count_def)
  have l5: "(likes_run [(u, pid), (u, pid)] db)\<lparr>likes := likes db\<rparr> = db"
    by (simp add: snd_like)
  have s1: "pair_row u pid \<in> set (saves db) \<longrightarrow>
      save u pid db = (Json [(''saved'', JBool False)],
                       db\<lparr>saves := remove1 (pair_row u pid) (saves db)\<rparr>)"
    by (simp add: save_eq)
  have s2: "pair_row u pid \<notin> set (saves db) \<longrightarrow>
      save u pid db = (Json [(''saved'', JBool True)],
                       db\<lparr>saves := saves db @ [pair_row u pid]\<rparr>)"
    by (simp add: save_eq)
  have s3: "fst (save u pid db)
        = Json [(''saved'', JBool (pair_row u pid \<in> set (saves (snd (save u pid db)))))]"
    if "row_count u pid (saves db) \<le> 1"
    using that toggle_reports [of "saves db" "pair_row u pid"]
    by (simp add: saves_save row_count_def) (simp add: save_eq)
  have s4: "mset (saves (saves_run [(u, pid), (u, pid)] db)) = mset (saves db)"
    if "row_count u pid (saves db) \<le> 1"
    using that toggle_twice [of "saves db" "pair_row u pid"]
    by (simp add: snd_save row_count_def)
  have s5: "(saves_run [(u, pid), (u, pid)] db)\<lparr>saves := saves db\<rparr> = db"
    by (simp add: snd_save)
  show ?thesis
    using l1 l2 l3 l4 l5 s1 s2 s3 s4 s5 likes_run_count [of u pid db reqs]
      saves_run_count [of u pid db reqs]
    by blast
qed

theorem toggle_like_save_witness:
  "pair_row alice 7 \<notin> set (likes empty_store)
   \<and> like alice 7 empty_store
       = (Json [(''liked'', JBool True)], empty_store\<lparr>likes := [pair_row alice 7]\<rparr>)
   \<and> pair_row alice 7 \<in> set (likes liked_store)
   \<and> like alice 7 liked_store = (Json [(''liked'', JBool False)], liked_store\<lparr>likes := []\<rparr>)
   \<and> row_count alice 7 (likes liked_store) \<le> 1
   \<and> mset (likes (likes_run [(alice, 7), (alice, 7)] liked_store)) = mset (likes liked_store)
   \<and> row_count alice 7 (likes (likes_run [(alice, 7), (alice, 7), (alice, 7)] liked_store)) \<le> 1
   \<and> pair_row alice 7 \<notin> set (saves empty_store)
   \<and> save alice 7 empty_store
       = (Json [(''saved'', JBool True)], empty_store\<lparr>saves := [pair_row alice 7]\<rparr>)
   \<and> pair_row alice 7 \<in> set (saves liked_store)
   \<and> save alice 7 liked_store = (Json [(''saved'', JBool False)], liked_store\<lparr>saves := []\<rparr>)
   \<and> row_count alice 7 (saves liked_store) \<le> 1
   \<and> mset (saves (saves_run [(alice, 7), (alice, 7)] liked_store)) = mset (saves liked_store)
   \<and> row_count alice 7 (saves (saves_run [(alice, 7), (alice, 7), (alice, 7)] liked_store)) \<le> 1"
  using toggle_like_save [of alice 7 empty_store "[]"]
    toggle_like_save [of alice 7 liked_store "[(alice, 7), (alice, 7), (alice, 7)]"]
  by (simp add: empty_store_def liked_store_def row_count_def like_eq save_eq)

section \<open>Theorems about the feed query\<close>

























text \<open>
  The engines on the inputs that tell them apart: a term with an accented letter finds the
  title in other case on PostgreSQL under a locale that folds the letter, and not on
  SQLite; a term that starts with NUL finds every photo on SQLite, whose pattern ends
  there, and is refused by PostgreSQL's driver.
\<close>

lemma feed_engine_examples:
  "feed (PostgreSQL locale_lower) id (Some term_ete) feed_store = Inr [mk_photo title_ete None 1 50]
   \<and> feed SQLite id (Some term_ete) feed_store = Inr []
   \<and> feed SQLite id (Some (nul # ''zzz'')) feed_store = Inr (photos feed_store)
   \<and> feed (PostgreSQL locale_lower) id (Some (nul # ''zzz'')) feed_store = Inl NulCharacterError"
  by (simp add: feed_def feed_store_def empty_store_def mk_photo_def alice_def abby_def ilike_def
      lower_def lower_char_def until_nul_def nul_def has_joined_row_def
      title_ete_def term_ete_def e_acute_upper_def e_acute_lower_def)

section \<open>Theorems about the upload pipeline\<close>

text \<open>
  C7. For an upload request (POST) in which the file or the title is missing or empty, the
  Photo table, the blob container and the local upload folder are left as they were; a
  creator is redirected to the request URL with the notice "Missing fields" as the only
  change; and the outcome does not depend on the image library, so nothing has been
  decoded, analysed or encoded.
\<close>

theorem upload_missing_fields:
  assumes "req_method req = POST"
    and "\<not> file_truthy (req_photo req) \<or> \<not> truthy (form_title req)"
  shows "photos (snd (creator_dashboard P env u req st)) = photos st
    \<and> blobs (snd (creator_dashboard P env u req st)) = blobs st
    \<and> files (snd (creator_dashboard P env u req st)) = files st
    \<and> (role u = ''creator'' \<longrightarrow>
         creator_dashboard P env u req st
           = (Inr (Redirect (req_url req)), flash ''Missing fields'' ''danger'' st))
    \<and> creator_dashboard P env u req st = creator_dashboard P' env u req st"
  using assms by (auto simp add: creator_dashboard_def flash_def)

theorem upload_missing_fields_witness:
  "req_method (sample_upload None (Some ''Cat'')) = POST
   \<and> \<not> file_truthy (req_photo (sample_upload None (Some ''Cat'')))
   \<and> creator_dashboard sample_pil sample_env alice (sample_upload None (Some ''Cat'')) empty_store
       = (Inr (Redirect ''/upload''), flash ''Missing fields'' ''danger'' empty_store)
   \<and> \<not> truthy (form_title (sample_upload (Some sample_file) None))
   \<and> creator_dashboard sample_pil sample_env alice (sample_upload (Some sample_file) None) empty_store
       = (Inr (Redirect ''/upload''), flash ''Missing fields'' ''danger'' empty_store)
   \<and> \<not> truthy (form_title (sample_upload (Some sample_file) (Some [])))
   \<and> photos (snd (creator_dashboard sample_pil sample_env alice
         (sample_upload (Some sample_file) (Some [])) empty_store)) = []
   \<and> photos (flash ''Missing fields'' ''danger'' empty_store) = []
   \<and> blobs (flash ''Missing fields'' ''danger'' empty_store) = []
   \<and> files (flash ''Missing fields'' ''danger'' empty_store) = []"
  using upload_missing_fields [of "sample_upload None (Some ''Cat'')" sample_pil sample_env alice
      empty_store sample_pil]
    upload_missing_fields [of "sample_upload (Some sample_file) None" sample_pil sample_env alice
      empty_store sample_pil]
    upload_missing_fields [of "sample_upload (Some sample_file) (Some [])" sample_pil sample_env
      alice empty_store sample_pil]
  by (simp add: sample_upload_def alice_def empty_store_def flash_def)

section \<open>Theorems about registration\<close>

text \<open>
  C8, as stated, fails: the handler stores the role field of the form as it comes, so a
  request with role \<open>admin\<close> creates a user whose role is neither \<open>creator\<close> nor
  \<open>consumer\<close>.
\<close>

theorem register_role_counterexample:
  "created_users empty_store
      (snd (register sample_hash POST (Some ''bob'') (Some ''pw'') (Some ''admin'') empty_store))
     = [\<lparr>user_id = 1, username = ''bob'', password = ''pbkdf2:pw'', role = ''admin''\<rparr>]
   \<and> \<not> list_all role_valid (created_users empty_store
      (snd (register sample_hash POST (Some ''bob'') (Some ''pw'') (Some ''admin'') empty_store)))"
  by (simp add: register_def created_users_def empty_store_def sample_hash_def next_user_id_def
      role_valid_def)

text \<open>
  C8, amended. Every user created by the registration handler has the role that the
  request's form gives, whatever string that is, and the role \<open>consumer\<close> whenever the
  request does not specify one; a POST with a username not yet taken and a password
  creates exactly one such user.
\<close>

theorem register_role:
  "(m = POST \<and> fu = Some name \<and> fp = Some pw \<and> \<not> list_ex (\<lambda>u. username u = name) (users db) \<longrightarrow>
      created_users db (snd (register h m fu fp fr db))
        = [\<lparr>user_id = next_user_id (users db), username = name, password = h pw,
            role = (case fr of None \<Rightarrow> ''consumer'' | Some r \<Rightarrow> r)\<rparr>])
   \<and> (\<forall>u\<in>set (created_users db (snd (register h m fu fp fr db))).
         role u = (case fr of None \<Rightarrow> ''consumer'' | Some r \<Rightarrow> r))
   \<and> (fr = None \<longrightarrow>
        (\<forall>u\<in>set (created_users db (snd (register h m fu fp fr db))). role u = ''consumer''))"
  by (auto simp add: register_def created_users_def Let_def split: option.splits)

theorem register_role_witness:
  "\<not> list_ex (\<lambda>u. username u = ''bob'') (users empty_store)
   \<and> created_users empty_store
        (snd (register sample_hash POST (Some ''bob'') (Some ''pw'') None empty_store))
      = [\<lparr>user_id = 1, username = ''bob'', password = ''pbkdf2:pw'', role = ''consumer''\<rparr>]
   \<and> created_users empty_store
        (snd (register sample_hash POST (Some ''bob'') (Some ''pw'') (Some ''creator'') empty_store))
      = [\<lparr>user_id = 1, username = ''bob'', password = ''pbkdf2:pw'', role = ''creator''\<rparr>]"
  using register_role [of POST "Some ''bob''" "''bob''" "Some ''pw''" "''pw''" empty_store sample_hash None]
    register_role [of POST "Some ''bob''" "''bob''" "Some ''pw''" "''pw''" empty_store sample_hash
      "Some ''creator''"]
  by (simp add: empty_store_def sample_hash_def next_user_id_def)

end
